theory Spec2Isabelle
  imports Main "HOL-Library.Word"
begin

section \<open>The signaling relay of internal/websocket/server.go\<close>

text \<open>
  The theory embeds the WebSocket signaling server: the message struct, the buffered
  channels of a \<open>Client\<close>, the device repository the server queries, the three cases
  of \<open>Hub.run\<close>, the handlers a \<open>Client\<close> runs on an inbound frame, the read loop
  and the admission handler \<open>Server.handleWebSocket\<close>.

  One call of a Go function is one HOL function from the state before to the state
  after. The goroutines meet only in the channels and in the \<open>clients\<close> map, so an
  interleaving of the program is a sequence of such calls. The mutexes, the read
  deadline and the ticker of \<open>writePump\<close> are not part of the model.
\<close>

subsection \<open>Identifiers\<close>

text \<open>\<open>uuid.UUID\<close> is \<open>[16]byte\<close>: 128 bits, compared with \<open>==\<close>.\<close>

type_synonym uuid = "128 word"

text \<open>A \<open>time.Time\<close>, as a number of ticks.\<close>

type_synonym time = nat

text \<open>A \<open>*Client\<close>: the address of a \<open>Client\<close> struct.\<close>

type_synonym ptr = nat

subsection \<open>Go's error values and panics\<close>

text \<open>
  The \<open>error\<close> values the server meets: \<open>sql.ErrNoRows\<close>, gorilla's
  \<open>*websocket.CloseError\<close> with its close code and text, the error of
  \<open>json.Unmarshal\<close> inside \<open>ReadJSON\<close>, and any other error with its text.
\<close>

datatype error =
    ErrNoRows
  | CloseError nat string
  | UnmarshalError string
  | OtherError string

text \<open>The two run-time panics of channel operations. Nothing recovers them.\<close>

datatype panic = SendOnClosedChannel | CloseOfClosedChannel

subsection \<open>Messages\<close>

record SDPMessage =
  sdp_Type :: string
  sdp_SDP :: string

record ICECandidate =
  ice_Candidate :: string
  SDPMLineIndex :: int
  SDPMid :: string

record SignalingMessage =
  Type :: string
  FromDeviceID :: string
  ToDeviceID :: string
  SDP :: "SDPMessage option"
  Candidate :: "ICECandidate option"
  Error :: string
  Data :: string

text \<open>The struct literal \<open>SignalingMessage{Type: "error", Error: errorMsg}\<close>.\<close>

definition error_envelope :: "string \<Rightarrow> SignalingMessage" where
  "error_envelope errorMsg =
     \<lparr>Type = ''error'', FromDeviceID = [], ToDeviceID = [], SDP = None,
      Candidate = None, Error = errorMsg, Data = []\<rparr>"

subsection \<open>Buffered channels\<close>

text \<open>
  A channel made by \<open>make(chan T, n)\<close>: the values in its buffer, oldest first, its
  capacity, and whether \<open>close\<close> has been called on it.
\<close>

record 'a chan =
  ch_buf :: "'a list"
  ch_cap :: nat
  ch_closed :: bool

definition make_chan :: "nat \<Rightarrow> 'a chan" where
  "make_chan n = \<lparr>ch_buf = [], ch_cap = n, ch_closed = False\<rparr>"

text \<open>\<open>close(ch)\<close> panics on a channel that is already closed.\<close>

definition close_chan :: "'a chan \<Rightarrow> panic + 'a chan" where
  "close_chan ch =
     (if ch_closed ch then Inl CloseOfClosedChannel else Inr (ch\<lparr>ch_closed := True\<rparr>))"

text \<open>
  \<open>select { case ch <- v: ... default: ... }\<close>: a send that does not wait. On a closed
  channel it panics; with room in the buffer the value is appended (\<open>Some\<close> of the
  channel after); with a full buffer the \<open>default\<close> branch runs (\<open>None\<close>).
\<close>

definition select_send :: "'a chan \<Rightarrow> 'a \<Rightarrow> panic + 'a chan option" where
  "select_send ch v =
     (if ch_closed ch then Inl SendOnClosedChannel
      else if length (ch_buf ch) < ch_cap ch then Inr (Some (ch\<lparr>ch_buf := ch_buf ch @ [v]\<rparr>))
      else Inr None)"

subsection \<open>The transport\<close>

text \<open>
  A \<open>*websocket.Conn\<close>: the JSON frames handed to it with \<open>WriteJSON\<close>, in order,
  and whether \<open>Close\<close> has been called. A write on a closed connection returns an
  error and writes nothing; every caller modelled here drops that error.
\<close>

record WSConn =
  written :: "SignalingMessage list"
  conn_closed :: bool

definition new_conn :: WSConn where
  "new_conn = \<lparr>written = [], conn_closed = False\<rparr>"

definition WriteJSON :: "WSConn \<Rightarrow> SignalingMessage \<Rightarrow> WSConn" where
  "WriteJSON conn m = (if conn_closed conn then conn else conn\<lparr>written := written conn @ [m]\<rparr>)"

definition Close :: "WSConn \<Rightarrow> WSConn" where
  "Close conn = conn\<lparr>conn_closed := True\<rparr>"

subsection \<open>The device repository\<close>

text \<open>\<open>models.Device\<close>; the fields carry the prefix \<open>dev_\<close>.\<close>

record Device =
  dev_ID :: uuid
  dev_UserID :: uuid
  dev_Name :: string
  dev_DeviceType :: string
  dev_DeviceToken :: string
  dev_LastSeenAt :: time
  dev_CreatedAt :: time
  dev_UpdatedAt :: time

text \<open>
  The database behind \<open>DeviceRepo\<close>: the rows of table \<open>devices\<close>, and the error
  the driver answers every statement with while the database is out of order.
\<close>

record DeviceRepo =
  devices :: "Device list"
  db_fault :: "string option"

text \<open>
  \<open>r.db.QueryRow(query, arg).Scan(...)\<close> for a \<open>SELECT ... WHERE\<close>: the first row
  that satisfies the condition, \<open>sql.ErrNoRows\<close> when there is none.
\<close>

definition QueryRow :: "DeviceRepo \<Rightarrow> (Device \<Rightarrow> bool) \<Rightarrow> error + Device" where
  "QueryRow r cond =
     (case db_fault r of
        Some e \<Rightarrow> Inl (OtherError e)
      | None \<Rightarrow> (case find cond (devices r) of None \<Rightarrow> Inl ErrNoRows | Some d \<Rightarrow> Inr d))"

text \<open>
  \<open>GetByID\<close> and \<open>GetByToken\<close> return \<open>(*models.Device, error)\<close>:
  \<open>(nil, nil)\<close> on \<open>sql.ErrNoRows\<close>, \<open>(nil, err)\<close> on another error, else
  \<open>(device, nil)\<close>.
\<close>

definition scan_result :: "error + Device \<Rightarrow> Device option \<times> error option" where
  "scan_result s =
     (case s of
        Inl ErrNoRows \<Rightarrow> (None, None)
      | Inl err \<Rightarrow> (None, Some err)
      | Inr device \<Rightarrow> (Some device, None))"

definition GetByID :: "DeviceRepo \<Rightarrow> uuid \<Rightarrow> Device option \<times> error option" where
  "GetByID r i = scan_result (QueryRow r (\<lambda>d. dev_ID d = i))"

definition GetByToken :: "DeviceRepo \<Rightarrow> string \<Rightarrow> Device option \<times> error option" where
  "GetByToken r token = scan_result (QueryRow r (\<lambda>d. dev_DeviceToken d = token))"

text \<open>
  \<open>UpdateLastSeen\<close>: the \<open>UPDATE\<close> sets both timestamps of every row with the
  identifier; no row affected is \<open>sql.ErrNoRows\<close>.
\<close>

definition UpdateLastSeen :: "DeviceRepo \<Rightarrow> uuid \<Rightarrow> time \<Rightarrow> DeviceRepo \<times> error option" where
  "UpdateLastSeen r i now =
     (case db_fault r of
        Some e \<Rightarrow> (r, Some (OtherError e))
      | None \<Rightarrow>
          (r\<lparr>devices := map (\<lambda>d. if dev_ID d = i
                                   then d\<lparr>dev_LastSeenAt := now, dev_UpdatedAt := now\<rparr> else d)
                             (devices r)\<rparr>,
           if filter (\<lambda>d. dev_ID d = i) (devices r) = [] then Some ErrNoRows else None))"

subsection \<open>The libraries the server calls\<close>

text \<open>
  Three functions of the packages \<open>google/uuid\<close> and \<open>gorilla/websocket\<close> are not
  part of the repository; the model takes them as parameters: \<open>uuid.Parse\<close>
  (\<open>None\<close> when it returns an error), \<open>UUID.String\<close> and
  \<open>websocket.IsUnexpectedCloseError\<close> with its list of expected close codes.
\<close>

record pkg =
  Parse :: "string \<Rightarrow> uuid option"
  String :: "uuid \<Rightarrow> string"
  IsUnexpectedCloseError :: "error \<Rightarrow> nat list \<Rightarrow> bool"

definition CloseGoingAway :: nat where
  "CloseGoingAway = 1001"

definition CloseAbnormalClosure :: nat where
  "CloseAbnormalClosure = 1006"

subsection \<open>Log output\<close>

datatype level = InfoLevel | WarnLevel | ErrorLevel

datatype log_field = Str string string | Err error

text \<open>A zerolog event: level, fields, message.\<close>

datatype log_event = LogEvent level "log_field list" string

subsection \<open>Clients, the hub and the state of the process\<close>

record Client =
  ID :: uuid
  UserID :: uuid
  DeviceID :: uuid
  Conn :: WSConn
  Send :: "SignalingMessage chan"
  LastSeen :: time

datatype goroutine = Go_writePump ptr | Go_readPump ptr

text \<open>
  The process has one \<open>Hub\<close>. \<open>World\<close> holds its fields and the \<open>Client\<close> structs
  that pointers refer to:
  \<^item> \<open>clients\<close>, \<open>deviceRepo\<close> are the hub's fields of these names;
  \<open>log\<close> is what the hub's logger has written;
  \<^item> \<open>broadcast\<close>, \<open>register\<close>, \<open>unregister\<close> are the values sent on the hub's
    channel of that name, in order; \<open>Hub.run\<close> is their only receiver. A sender
    waits while the channel cannot take the value; the wait is not modelled;
  \<^item> \<open>heap\<close> gives the struct at a pointer, \<open>next_ptr\<close> the address of the next
    allocation, \<open>goroutines\<close> the \<open>go\<close> statements executed.
\<close>

record World =
  clients :: "uuid \<rightharpoonup> ptr"
  broadcast :: "SignalingMessage list"
  register :: "ptr list"
  unregister :: "ptr list"
  deviceRepo :: DeviceRepo
  log :: "log_event list"
  heap :: "ptr \<Rightarrow> Client"
  next_ptr :: ptr
  goroutines :: "goroutine list"

subsection \<open>Hub.run\<close>

text \<open>The \<open>register\<close> case of the \<open>select\<close>, for the received \<open>client\<close>.\<close>

definition run_register :: "pkg \<Rightarrow> ptr \<Rightarrow> World \<Rightarrow> World" where
  "run_register P client w =
     w\<lparr>clients := (clients w)(DeviceID (heap w client) \<mapsto> client),
       log := log w @ [LogEvent InfoLevel
                         [Str ''device_id'' (String P (DeviceID (heap w client)))]
                         ''Client registered'']\<rparr>"

text \<open>The \<open>unregister\<close> case: the test is on the key \<open>client.DeviceID\<close> alone.\<close>

definition run_unregister :: "pkg \<Rightarrow> ptr \<Rightarrow> World \<Rightarrow> panic + World" where
  "run_unregister P client w =
     (let entry = LogEvent InfoLevel
                    [Str ''device_id'' (String P (DeviceID (heap w client)))]
                    ''Client unregistered''
      in case clients w (DeviceID (heap w client)) of
           None \<Rightarrow> Inr (w\<lparr>log := log w @ [entry]\<rparr>)
         | Some _ \<Rightarrow>
             (case close_chan (Send (heap w client)) of
                Inl p \<Rightarrow> Inl p
              | Inr ch \<Rightarrow>
                  Inr (w\<lparr>clients := (clients w)(DeviceID (heap w client) := None),
                         heap := (heap w)(client := (heap w client)\<lparr>Send := ch\<rparr>),
                         log := log w @ [entry]\<rparr>)))"

text \<open>The \<open>broadcast\<close> case, for the received \<open>message\<close>.\<close>

definition run_broadcast :: "pkg \<Rightarrow> SignalingMessage \<Rightarrow> World \<Rightarrow> panic + World" where
  "run_broadcast P message w =
     (case Parse P (ToDeviceID message) of
        None \<Rightarrow> Inr w
      | Some toDeviceID \<Rightarrow>
          (case clients w toDeviceID of
             None \<Rightarrow>
               Inr (w\<lparr>log := log w @ [LogEvent WarnLevel
                                         [Str ''device_id'' (ToDeviceID message)]
                                         ''Target device not connected'']\<rparr>)
           | Some client \<Rightarrow>
               (case select_send (Send (heap w client)) message of
                  Inl p \<Rightarrow> Inl p
                | Inr (Some ch) \<Rightarrow>
                    Inr (w\<lparr>heap := (heap w)(client := (heap w client)\<lparr>Send := ch\<rparr>)\<rparr>)
                | Inr None \<Rightarrow>
                    (case close_chan (Send (heap w client)) of
                       Inl p \<Rightarrow> Inl p
                     | Inr ch \<Rightarrow>
                         Inr (w\<lparr>heap := (heap w)(client := (heap w client)\<lparr>Send := ch\<rparr>),
                                clients := (clients w)(toDeviceID := None)\<rparr>)))))"

text \<open>What one iteration of the loop received, and the loop over a sequence of them.\<close>

datatype received = FromRegister ptr | FromUnregister ptr | FromBroadcast SignalingMessage

fun run_case :: "pkg \<Rightarrow> received \<Rightarrow> World \<Rightarrow> panic + World" where
  "run_case P (FromRegister client) w = Inr (run_register P client w)"
| "run_case P (FromUnregister client) w = run_unregister P client w"
| "run_case P (FromBroadcast message) w = run_broadcast P message w"

fun run :: "pkg \<Rightarrow> received list \<Rightarrow> World \<Rightarrow> panic + World" where
  "run P [] w = Inr w"
| "run P (r # rs) w = (case run_case P r w of Inl p \<Rightarrow> Inl p | Inr w' \<Rightarrow> run P rs w')"

subsection \<open>The handlers of a Client\<close>

text \<open>
  \<open>sendError\<close>: a send on the client's own \<open>Send\<close> channel that does not wait;
  with a full buffer the \<open>default\<close> branch writes a warning and nothing is sent.
\<close>

definition sendError :: "ptr \<Rightarrow> string \<Rightarrow> World \<Rightarrow> panic + World" where
  "sendError c errorMsg w =
     (case select_send (Send (heap w c)) (error_envelope errorMsg) of
        Inl p \<Rightarrow> Inl p
      | Inr (Some ch) \<Rightarrow> Inr (w\<lparr>heap := (heap w)(c := (heap w c)\<lparr>Send := ch\<rparr>)\<rparr>)
      | Inr None \<Rightarrow>
          Inr (w\<lparr>log := log w @ [LogEvent WarnLevel [] ''Failed to send error message'']\<rparr>))"

definition handleOffer :: "pkg \<Rightarrow> ptr \<Rightarrow> SignalingMessage \<Rightarrow> World \<Rightarrow> panic + World" where
  "handleOffer P c msg w =
     (if ToDeviceID msg = [] then sendError c ''to_device_id is required for offer'' w
      else case Parse P (ToDeviceID msg) of
        None \<Rightarrow> sendError c ''invalid to_device_id'' w
      | Some toDeviceID \<Rightarrow>
          (case GetByID (deviceRepo w) toDeviceID of
             (Some toDevice, None) \<Rightarrow>
               if dev_UserID toDevice \<noteq> UserID (heap w c)
               then sendError c ''devices must belong to the same user'' w
               else Inr (w\<lparr>broadcast := broadcast w @
                           [\<lparr>Type = ''offer'',
                             FromDeviceID = String P (DeviceID (heap w c)),
                             ToDeviceID = ToDeviceID msg,
                             SDP = SDP msg, Candidate = None, Error = [], Data = []\<rparr>]\<rparr>)
           | _ \<Rightarrow> sendError c ''target device not found'' w))"

definition handleAnswer :: "pkg \<Rightarrow> ptr \<Rightarrow> SignalingMessage \<Rightarrow> World \<Rightarrow> panic + World" where
  "handleAnswer P c msg w =
     (if ToDeviceID msg = [] then sendError c ''to_device_id is required for answer'' w
      else Inr (w\<lparr>broadcast := broadcast w @
                  [\<lparr>Type = ''answer'',
                    FromDeviceID = String P (DeviceID (heap w c)),
                    ToDeviceID = ToDeviceID msg,
                    SDP = SDP msg, Candidate = None, Error = [], Data = []\<rparr>]\<rparr>))"

definition handleICECandidate :: "pkg \<Rightarrow> ptr \<Rightarrow> SignalingMessage \<Rightarrow> World \<Rightarrow> panic + World" where
  "handleICECandidate P c msg w =
     (if ToDeviceID msg = [] then sendError c ''to_device_id is required for ice-candidate'' w
      else Inr (w\<lparr>broadcast := broadcast w @
                  [\<lparr>Type = ''ice-candidate'',
                    FromDeviceID = String P (DeviceID (heap w c)),
                    ToDeviceID = ToDeviceID msg,
                    SDP = None, Candidate = Candidate msg, Error = [], Data = []\<rparr>]\<rparr>))"

definition handleMessage :: "pkg \<Rightarrow> ptr \<Rightarrow> SignalingMessage \<Rightarrow> World \<Rightarrow> panic + World" where
  "handleMessage P c msg w =
     (if Type msg = ''offer'' then handleOffer P c msg w
      else if Type msg = ''answer'' then handleAnswer P c msg w
      else if Type msg = ''ice-candidate'' then handleICECandidate P c msg w
      else Inr (w\<lparr>log := log w @
                  [LogEvent WarnLevel [Str ''type'' (Type msg)] ''Unknown message type'']\<rparr>))"

subsection \<open>The read loop\<close>

text \<open>
  One pass through the body of the \<open>for\<close> loop of \<open>readPump\<close>, for what
  \<open>c.Conn.ReadJSON\<close> returned (an error, or the decoded message) and the
  \<open>time.Now()\<close> of the pass. Any error leaves the loop.
\<close>

datatype loop = Continue World | Break World

text \<open>\<open>c.LastSeen = time.Now()\<close>, under the client's mutex.\<close>

definition set_LastSeen :: "ptr \<Rightarrow> time \<Rightarrow> World \<Rightarrow> World" where
  "set_LastSeen c now w = w\<lparr>heap := (heap w)(c := (heap w c)\<lparr>LastSeen := now\<rparr>)\<rparr>"

definition readPump_body :: "pkg \<Rightarrow> ptr \<Rightarrow> time \<Rightarrow> error + SignalingMessage \<Rightarrow> World \<Rightarrow> panic + loop" where
  "readPump_body P c now r w =
     (case r of
        Inl err \<Rightarrow>
          Inr (Break (if IsUnexpectedCloseError P err [CloseGoingAway, CloseAbnormalClosure]
                      then w\<lparr>log := log w @ [LogEvent ErrorLevel [Err err] ''WebSocket error'']\<rparr>
                      else w))
      | Inr msg \<Rightarrow>
          (case handleMessage P c msg (set_LastSeen c now w) of
             Inl p \<Rightarrow> Inl p
           | Inr w' \<Rightarrow> Inr (Continue w')))"

text \<open>The deferred function: \<open>c.Hub.unregister <- c\<close>, then \<open>c.Conn.Close()\<close>.\<close>

definition readPump_deferred :: "ptr \<Rightarrow> World \<Rightarrow> World" where
  "readPump_deferred c w =
     w\<lparr>unregister := unregister w @ [c],
       heap := (heap w)(c := (heap w c)\<lparr>Conn := Close (Conn (heap w c))\<rparr>)\<rparr>"

text \<open>
  \<open>readPump\<close> on the reads that have arrived so far: \<open>Reading\<close> when the loop waits
  in \<open>ReadJSON\<close> for the next one, \<open>Exited\<close> when it has left the loop and run the
  deferred function.
\<close>

datatype pump = Reading World | Exited World

fun readPump :: "pkg \<Rightarrow> ptr \<Rightarrow> (time \<times> (error + SignalingMessage)) list \<Rightarrow> World \<Rightarrow> panic + pump" where
  "readPump P c [] w = Inr (Reading w)"
| "readPump P c ((now, r) # rest) w =
     (case readPump_body P c now r w of
        Inl p \<Rightarrow> Inl p
      | Inr (Break w') \<Rightarrow> Inr (Exited (readPump_deferred c w'))
      | Inr (Continue w') \<Rightarrow> readPump P c rest w')"

subsection \<open>Admission: Server.handleWebSocket\<close>

text \<open>
  A request: the error of \<open>upgrader.Upgrade\<close> on it (\<open>None\<close> when the upgrade
  succeeds) and the query parameters of its URL. \<open>Get\<close> is \<open>url.Values.Get\<close>: the
  first value of the key, the empty string when the key is absent.
\<close>

record Request =
  Upgrade :: "string option"
  query :: "(string \<times> string) list"

definition Get :: "(string \<times> string) list \<Rightarrow> string \<Rightarrow> string" where
  "Get q k = (case map_of q k of None \<Rightarrow> [] | Some v \<Rightarrow> v)"

text \<open>A refused connection: one error envelope is written, then the connection is closed.\<close>

definition refuse :: "WSConn \<Rightarrow> string \<Rightarrow> WSConn" where
  "refuse conn errorMsg = Close (WriteJSON conn (error_envelope errorMsg))"

text \<open>
  \<open>handleWebSocket\<close>, given the value of \<open>uuid.New()\<close> and the two readings of
  \<open>time.Now()\<close> (in \<open>UpdateLastSeen\<close> and in the \<open>Client\<close> literal). It returns the
  connection as the handler leaves it (\<open>None\<close> when the upgrade failed) and the state.
\<close>

definition handleWebSocket ::
  "pkg \<Rightarrow> Request \<Rightarrow> uuid \<Rightarrow> time \<Rightarrow> time \<Rightarrow> World \<Rightarrow> WSConn option \<times> World" where
  "handleWebSocket P r newID now_db now w =
     (case Upgrade r of
        Some err \<Rightarrow>
          (None, w\<lparr>log := log w @
                     [LogEvent ErrorLevel [Err (OtherError err)] ''Failed to upgrade connection'']\<rparr>)
      | None \<Rightarrow>
          (let conn = new_conn;
               deviceIDStr = Get (query r) ''device_id'';
               deviceToken = Get (query r) ''device_token''
           in if deviceIDStr = [] \<or> deviceToken = []
              then (Some (refuse conn ''device_id and device_token are required''), w)
              else case Parse P deviceIDStr of
                None \<Rightarrow> (Some (refuse conn ''invalid device_id''), w)
              | Some deviceID \<Rightarrow>
                  (case GetByToken (deviceRepo w) deviceToken of
                     (Some device, None) \<Rightarrow>
                       if dev_ID device \<noteq> deviceID
                       then (Some (refuse conn ''device_id does not match device_token''), w)
                       else
                         (let client = \<lparr>ID = newID, UserID = dev_UserID device,
                                        DeviceID = deviceID, Conn = conn,
                                        Send = make_chan 256, LastSeen = now\<rparr>;
                              p = next_ptr w
                          in (Some conn,
                              w\<lparr>deviceRepo := fst (UpdateLastSeen (deviceRepo w) deviceID now_db),
                                heap := (heap w)(p := client),
                                next_ptr := Suc p,
                                register := register w @ [p],
                                goroutines := goroutines w @ [Go_writePump p, Go_readPump p]\<rparr>))
                   | _ \<Rightarrow> (Some (refuse conn ''invalid device_token''), w))))"

section \<open>Concrete inputs\<close>

text \<open>
  An instance of the library functions for the examples: the answers of
  \<open>uuid.Parse\<close> and \<open>UUID.String\<close> on the identifiers the examples use (the
  examples ask for no other), and \<open>IsUnexpectedCloseError\<close> as gorilla documents it:
  true for a \<open>CloseError\<close> whose code is not among the expected ones.
\<close>

definition idA :: string where
  "idA = ''00000000-0000-0000-0000-00000000000a''"

definition idB :: string where
  "idB = ''00000000-0000-0000-0000-00000000000b''"

definition test_pkg :: pkg where
  "test_pkg =
     \<lparr>Parse = (\<lambda>s. if s = idA then Some 10 else if s = idB then Some 11 else None),
      String = (\<lambda>u. if u = 11 then idB else idA),
      IsUnexpectedCloseError =
        (\<lambda>e codes. case e of CloseError code _ \<Rightarrow> code \<notin> set codes | _ \<Rightarrow> False)\<rparr>"

text \<open>Device A of user 100 and device B of user 200.\<close>

definition devA :: Device where
  "devA = \<lparr>dev_ID = 10, dev_UserID = 100, dev_Name = ''laptop'', dev_DeviceType = ''desktop'',
           dev_DeviceToken = ''token-a'', dev_LastSeenAt = 0, dev_CreatedAt = 0,
           dev_UpdatedAt = 0\<rparr>"

definition devB :: Device where
  "devB = \<lparr>dev_ID = 11, dev_UserID = 200, dev_Name = ''phone'', dev_DeviceType = ''mobile'',
           dev_DeviceToken = ''token-b'', dev_LastSeenAt = 0, dev_CreatedAt = 0,
           dev_UpdatedAt = 0\<rparr>"

text \<open>
  Sessions: \<open>sessA\<close> of device A with an empty outbound queue, \<open>sessA_full\<close> of
  device A with 256 envelopes waiting, \<open>sessB\<close> of device B, and \<open>sessA_again\<close>, a
  later connection of device A.
\<close>

definition sessA :: Client where
  "sessA = \<lparr>ID = 1, UserID = 100, DeviceID = 10, Conn = new_conn,
            Send = make_chan 256, LastSeen = 0\<rparr>"

definition sessA_full :: Client where
  "sessA_full = sessA\<lparr>ID := 2,
     Send := \<lparr>ch_buf = replicate 256 (error_envelope ''x''), ch_cap = 256, ch_closed = False\<rparr>\<rparr>"

definition sessB :: Client where
  "sessB = \<lparr>ID = 3, UserID = 200, DeviceID = 11, Conn = new_conn,
            Send = make_chan 256, LastSeen = 0\<rparr>"

definition sessA_again :: Client where
  "sessA_again = sessA\<lparr>ID := 4, LastSeen := 9\<rparr>"

text \<open>
  \<open>world0\<close>: nobody registered; pointer 1 is \<open>sessA\<close>, pointer 2 is
  \<open>sessA_full\<close>, pointer 3 is \<open>sessB\<close>, pointer 4 is \<open>sessA_again\<close>.
\<close>

definition world0 :: World where
  "world0 =
     \<lparr>clients = Map.empty, broadcast = [], register = [], unregister = [],
      deviceRepo = \<lparr>devices = [devA, devB], db_fault = None\<rparr>,
      log = [],
      heap = (\<lambda>p. if p = 2 then sessA_full else if p = 3 then sessB
                  else if p = 4 then sessA_again else sessA),
      next_ptr = 5, goroutines = []\<rparr>"

text \<open>An answer addressed to device B whose sender field the client filled in itself.\<close>

definition answer_spoofed :: SignalingMessage where
  "answer_spoofed = \<lparr>Type = ''answer'', FromDeviceID = idB, ToDeviceID = idB, SDP = None,
      Candidate = None, Error = [], Data = []\<rparr>"

text \<open>An offer from device A's user to device B, which belongs to another user.\<close>

definition offer_to_B :: SignalingMessage where
  "offer_to_B = \<lparr>Type = ''offer'', FromDeviceID = [], ToDeviceID = idB,
      SDP = Some \<lparr>sdp_Type = ''offer'', sdp_SDP = ''v=0''\<rparr>,
      Candidate = None, Error = [], Data = []\<rparr>"

text \<open>An answer without \<open>to_device_id\<close>.\<close>

definition answer_no_target :: SignalingMessage where
  "answer_no_target = \<lparr>Type = ''answer'', FromDeviceID = [], ToDeviceID = [],
      SDP = Some \<lparr>sdp_Type = ''answer'', sdp_SDP = ''v=0''\<rparr>,
      Candidate = None, Error = [], Data = []\<rparr>"

text \<open>The warning of the \<open>default\<close> branch of \<open>sendError\<close>.\<close>

definition warn_not_sent :: log_event where
  "warn_not_sent = LogEvent WarnLevel [] ''Failed to send error message''"

text \<open>An ICE candidate whose destination is not a UUID, and a frame of unknown type.\<close>

definition ice_to_unknown :: SignalingMessage where
  "ice_to_unknown = \<lparr>Type = ''ice-candidate'', FromDeviceID = [], ToDeviceID = ''not-a-uuid'',
      SDP = None,
      Candidate = Some \<lparr>ice_Candidate = ''candidate:1 1 UDP 1 10.0.0.1 5 typ host'',
                        SDPMLineIndex = 0, SDPMid = ''audio''\<rparr>,
      Error = [], Data = []\<rparr>"

definition ping_frame :: SignalingMessage where
  "ping_frame = \<lparr>Type = ''ping'', FromDeviceID = [], ToDeviceID = idB, SDP = None,
      Candidate = None, Error = [], Data = []\<rparr>"

text \<open>The error \<open>ReadJSON\<close> returns for a frame that is not JSON.\<close>

definition bad_json :: error where
  "bad_json = UnmarshalError ''invalid character x looking for beginning of value''"

text \<open>An answer from device B to device A.\<close>

definition answer_to_A :: SignalingMessage where
  "answer_to_A = \<lparr>Type = ''answer'', FromDeviceID = idB, ToDeviceID = idA, SDP = None,
      Candidate = None, Error = [], Data = []\<rparr>"

text \<open>
  States of the hub: device A connected (pointer 1 registered), device A connected a
  second time (pointer 4 registered over it), and device A connected with the session
  whose queue is full (pointer 2).
\<close>

definition world_connected :: World where
  "world_connected = run_register test_pkg 1 world0"

definition world_reconnected :: World where
  "world_reconnected = run_register test_pkg 4 world_connected"

definition world_full :: World where
  "world_full = run_register test_pkg 2 world0"

text \<open>
  Requests: one that is not a WebSocket handshake and has no parameters, and one of
  device A that presents the token of device B.
\<close>

definition plain_request :: Request where
  "plain_request = \<lparr>Upgrade = Some ''websocket: the client is not using the websocket protocol'',
                     query = []\<rparr>"

definition wrong_token_request :: Request where
  "wrong_token_request = \<lparr>Upgrade = None,
      query = [(''device_id'', idA), (''device_token'', ''token-b'')]\<rparr>"

section \<open>The registry invariant\<close>

text \<open>
  Every session in the registry is stored under its own \<open>DeviceID\<close> and its outbound
  queue is open.
\<close>

definition registry_ok :: "World \<Rightarrow> bool" where
  "registry_ok w \<longleftrightarrow>
     (\<forall>k p. clients w k = Some p \<longrightarrow>
            DeviceID (heap w p) = k \<and> \<not> ch_closed (Send (heap w p)))"

section \<open>Properties of the handlers\<close>

subsection \<open>What a handler may add to the broadcast channel\<close>

lemma sendError_broadcast:
  "sendError c e w = Inr w' \<Longrightarrow> broadcast w' = broadcast w"
  by (auto simp: sendError_def split: sum.splits option.splits)

lemma handleOffer_FromDeviceID:
  "handleOffer P c (msg\<lparr>FromDeviceID := claimed\<rparr>) w = handleOffer P c msg w"
  by (simp add: handleOffer_def split: option.splits prod.splits)

lemma handleMessage_FromDeviceID:
  "handleMessage P c (msg\<lparr>FromDeviceID := claimed\<rparr>) w = handleMessage P c msg w"
  by (simp add: handleMessage_def handleOffer_FromDeviceID handleAnswer_def handleICECandidate_def)

lemma handleOffer_submits:
  "handleOffer P c msg w = Inr w' \<Longrightarrow>
     \<exists>ms. broadcast w' = broadcast w @ ms \<and> length ms \<le> 1 \<and>
          (\<forall>m\<in>set ms. FromDeviceID m = String P (DeviceID (heap w c)))"
  by (auto simp: handleOffer_def dest: sendError_broadcast
           split: if_splits option.splits prod.splits)

lemma handleAnswer_submits:
  "handleAnswer P c msg w = Inr w' \<Longrightarrow>
     \<exists>ms. broadcast w' = broadcast w @ ms \<and> length ms \<le> 1 \<and>
          (\<forall>m\<in>set ms. FromDeviceID m = String P (DeviceID (heap w c)))"
  by (auto simp: handleAnswer_def dest: sendError_broadcast split: if_splits)

lemma handleICECandidate_submits:
  "handleICECandidate P c msg w = Inr w' \<Longrightarrow>
     \<exists>ms. broadcast w' = broadcast w @ ms \<and> length ms \<le> 1 \<and>
          (\<forall>m\<in>set ms. FromDeviceID m = String P (DeviceID (heap w c)))"
  by (auto simp: handleICECandidate_def dest: sendError_broadcast split: if_splits)

lemma handleMessage_submits:
  "handleMessage P c msg w = Inr w' \<Longrightarrow>
     \<exists>ms. broadcast w' = broadcast w @ ms \<and> length ms \<le> 1 \<and>
          (\<forall>m\<in>set ms. FromDeviceID m = String P (DeviceID (heap w c)))"
  unfolding handleMessage_def
  by (auto dest: handleOffer_submits handleAnswer_submits handleICECandidate_submits
           split: if_splits)

text \<open>
  Claim C5. The handlers never read the \<open>from_device_id\<close> of the inbound frame: two
  frames that differ in that field alone give the same result, state and forwarded
  envelope included. Whatever a handler adds to the broadcast channel (at most one
  envelope) carries \<open>c.DeviceID.String()\<close>, the identifier of the authenticated
  session, as its \<open>from_device_id\<close>.
\<close>

theorem C5_sender_overwritten:
  "handleMessage P c (msg\<lparr>FromDeviceID := claimed\<rparr>) w = handleMessage P c msg w \<and>
   (handleMessage P c msg w = Inr w' \<longrightarrow>
      (\<exists>ms. broadcast w' = broadcast w @ ms \<and> length ms \<le> 1 \<and>
            (\<forall>m\<in>set ms. FromDeviceID m = String P (DeviceID (heap w c)))))"
  using handleMessage_FromDeviceID handleMessage_submits by blast

text \<open>
  The session of device A sends an answer that claims to come from device B: the
  envelope forwarded names device A, and forging another sender changes nothing.
\<close>

theorem C5_sender_overwritten_witness:
  "handleMessage test_pkg 1 (answer_spoofed\<lparr>FromDeviceID := ''forged''\<rparr>) world0
     = handleMessage test_pkg 1 answer_spoofed world0 \<and>
   handleMessage test_pkg 1 answer_spoofed world0
     = Inr (world0\<lparr>broadcast := [answer_spoofed\<lparr>FromDeviceID := idA\<rparr>]\<rparr>) \<and>
   (\<exists>ms. broadcast (world0\<lparr>broadcast := [answer_spoofed\<lparr>FromDeviceID := idA\<rparr>]\<rparr>)
            = broadcast world0 @ ms \<and> length ms \<le> 1 \<and>
         (\<forall>m\<in>set ms. FromDeviceID m = String test_pkg (DeviceID (heap world0 1))))"
proof -
  have run: "handleMessage test_pkg 1 answer_spoofed world0
               = Inr (world0\<lparr>broadcast := [answer_spoofed\<lparr>FromDeviceID := idA\<rparr>]\<rparr>)"
    by (simp add: handleMessage_def handleAnswer_def answer_spoofed_def world0_def
                  test_pkg_def sessA_def idA_def idB_def)
  from C5_sender_overwritten
         [where P = test_pkg and c = 1 and msg = answer_spoofed and claimed = "''forged''"
            and w = world0
            and w' = "world0\<lparr>broadcast := [answer_spoofed\<lparr>FromDeviceID := idA\<rparr>]\<rparr>"] run
  show ?thesis by simp
qed

subsection \<open>Errors sent to the sender\<close>

lemma sendError_open:
  "\<not> ch_closed (Send (heap w c)) \<Longrightarrow>
   sendError c e w =
     Inr (if length (ch_buf (Send (heap w c))) < ch_cap (Send (heap w c))
          then w\<lparr>heap := (heap w)(c := (heap w c)
                   \<lparr>Send := (Send (heap w c))\<lparr>ch_buf := ch_buf (Send (heap w c)) @ [error_envelope e]\<rparr>\<rparr>)\<rparr>
          else w\<lparr>log := log w @ [LogEvent WarnLevel [] ''Failed to send error message'']\<rparr>)"
  by (simp add: sendError_def select_send_def)

lemma handleOffer_other_account:
  "ToDeviceID msg \<noteq> [] \<Longrightarrow> Parse P (ToDeviceID msg) = Some t \<Longrightarrow>
   GetByID (deviceRepo w) t = (Some toDevice, None) \<Longrightarrow>
   dev_UserID toDevice \<noteq> UserID (heap w c) \<Longrightarrow>
   handleOffer P c msg w = sendError c ''devices must belong to the same user'' w"
  by (simp add: handleOffer_def)

lemma GetByID_world0_B: "GetByID (deviceRepo world0) 11 = (Some devB, None)"
  by (simp add: GetByID_def QueryRow_def scan_result_def world0_def devA_def devB_def)

lemma sendError_Conn:
  "sendError c e w = Inr w' \<Longrightarrow> Conn (heap w' c) = Conn (heap w c)"
  by (auto simp: sendError_def split: sum.splits option.splits)

lemma sendError_returns:
  "\<not> ch_closed (Send (heap w c)) \<Longrightarrow> \<exists>w'. sendError c e w = Inr w'"
  by (simp add: sendError_open)

text \<open>
  Claim C1, as stated, fails. The session at pointer 2 belongs to user 100 and has 256
  envelopes waiting in its outbound queue; its offer goes to device B of user 200.
  \<open>sendError\<close> takes its \<open>default\<close> branch: a warning is logged, the queue is as it
  was, and no error envelope reaches the sender.
\<close>

theorem C1_counterexample:
  "Parse test_pkg (ToDeviceID offer_to_B) = Some 11 \<and>
   GetByID (deviceRepo world0) 11 = (Some devB, None) \<and>
   dev_UserID devB \<noteq> UserID (heap world0 2) \<and>
   handleOffer test_pkg 2 offer_to_B world0 = Inr (world0\<lparr>log := [warn_not_sent]\<rparr>) \<and>
   Send (heap (world0\<lparr>log := [warn_not_sent]\<rparr>) 2) = Send (heap world0 2)"
proof -
  have a: "ToDeviceID offer_to_B \<noteq> []" by (simp add: offer_to_B_def idB_def)
  have b: "Parse test_pkg (ToDeviceID offer_to_B) = Some 11"
    by (simp add: offer_to_B_def test_pkg_def idA_def idB_def)
  have d: "dev_UserID devB \<noteq> UserID (heap world0 2)"
    by (simp add: devB_def world0_def sessA_full_def sessA_def)
  have s: "sendError 2 ''devices must belong to the same user'' world0
             = Inr (world0\<lparr>log := [warn_not_sent]\<rparr>)"
    by (simp add: sendError_def select_send_def world0_def sessA_full_def sessA_def
                  warn_not_sent_def)
  from handleOffer_other_account [OF a b GetByID_world0_B d] s b d GetByID_world0_B
  show ?thesis by simp
qed

text \<open>
  Claim C1, amended. An offer whose \<open>to_device_id\<close> resolves to a device of another
  account is never put on the broadcast channel, whatever the handler returns. When
  the sender's outbound queue is open, the handler returns: with room in the queue the
  error envelope is appended to it; with the queue full only a warning is logged.
\<close>

theorem C1_amended:
  assumes "ToDeviceID msg \<noteq> []"
    and "Parse P (ToDeviceID msg) = Some t"
    and "GetByID (deviceRepo w) t = (Some toDevice, None)"
    and "dev_UserID toDevice \<noteq> UserID (heap w c)"
  shows "(\<forall>w'. handleOffer P c msg w = Inr w' \<longrightarrow> broadcast w' = broadcast w) \<and>
         (\<not> ch_closed (Send (heap w c)) \<longrightarrow>
            handleOffer P c msg w =
              Inr (if length (ch_buf (Send (heap w c))) < ch_cap (Send (heap w c))
                   then w\<lparr>heap := (heap w)(c := (heap w c)
                            \<lparr>Send := (Send (heap w c))
                               \<lparr>ch_buf := ch_buf (Send (heap w c)) @
                                  [error_envelope ''devices must belong to the same user'']\<rparr>\<rparr>)\<rparr>
                   else w\<lparr>log := log w @
                            [LogEvent WarnLevel [] ''Failed to send error message'']\<rparr>))"
  using handleOffer_other_account [OF assms] sendError_broadcast sendError_open
  by metis

text \<open>
  Device A's session with an empty queue offers to device B of another user: the error
  envelope is in its queue and the broadcast channel is as it was.
\<close>

theorem C1_amended_witness:
  "handleOffer test_pkg 1 offer_to_B world0 =
     Inr (world0\<lparr>heap := (heap world0)(1 := sessA
            \<lparr>Send := (make_chan 256)
               \<lparr>ch_buf := [error_envelope ''devices must belong to the same user'']\<rparr>\<rparr>)\<rparr>)"
proof -
  have a: "ToDeviceID offer_to_B \<noteq> []" by (simp add: offer_to_B_def idB_def)
  have b: "Parse test_pkg (ToDeviceID offer_to_B) = Some 11"
    by (simp add: offer_to_B_def test_pkg_def idA_def idB_def)
  have d: "dev_UserID devB \<noteq> UserID (heap world0 1)"
    by (simp add: devB_def world0_def sessA_def)
  have e: "\<not> ch_closed (Send (heap world0 1))"
    by (simp add: world0_def sessA_def make_chan_def)
  have f: "length (ch_buf (Send (heap world0 1))) < ch_cap (Send (heap world0 1))"
    by (simp add: world0_def sessA_def make_chan_def)
  have g: "heap world0 1 = sessA" "Send sessA = make_chan 256" "ch_buf (make_chan 256 :: SignalingMessage chan) = []"
    by (simp_all add: world0_def sessA_def make_chan_def)
  from C1_amended [OF a b GetByID_world0_B d] e f g show ?thesis by simp
qed

subsection \<open>Answers and ICE candidates\<close>

lemma handleAnswer_forward:
  "ToDeviceID msg \<noteq> [] \<Longrightarrow>
   handleAnswer P c msg w =
     Inr (w\<lparr>broadcast := broadcast w @
            [\<lparr>Type = ''answer'', FromDeviceID = String P (DeviceID (heap w c)),
              ToDeviceID = ToDeviceID msg, SDP = SDP msg, Candidate = None,
              Error = [], Data = []\<rparr>]\<rparr>)"
  by (simp add: handleAnswer_def)

lemma handleICECandidate_forward:
  "ToDeviceID msg \<noteq> [] \<Longrightarrow>
   handleICECandidate P c msg w =
     Inr (w\<lparr>broadcast := broadcast w @
            [\<lparr>Type = ''ice-candidate'', FromDeviceID = String P (DeviceID (heap w c)),
              ToDeviceID = ToDeviceID msg, SDP = None, Candidate = Candidate msg,
              Error = [], Data = []\<rparr>]\<rparr>)"
  by (simp add: handleICECandidate_def)

lemma handleMessage_answer: "Type msg = ''answer'' \<Longrightarrow> handleMessage P c msg w = handleAnswer P c msg w"
  by (simp add: handleMessage_def)

lemma handleMessage_ice:
  "Type msg = ''ice-candidate'' \<Longrightarrow> handleMessage P c msg w = handleICECandidate P c msg w"
  by (simp add: handleMessage_def)

lemma forward_any_target:
  assumes "Type msg = ''answer'' \<or> Type msg = ''ice-candidate''" and "ToDeviceID msg \<noteq> []"
  shows "handleMessage P c msg w =
     Inr (w\<lparr>broadcast := broadcast w @
            [\<lparr>Type = Type msg, FromDeviceID = String P (DeviceID (heap w c)),
              ToDeviceID = ToDeviceID msg,
              SDP = (if Type msg = ''answer'' then SDP msg else None),
              Candidate = (if Type msg = ''answer'' then None else Candidate msg),
              Error = [], Data = []\<rparr>]\<rparr>)"
  using assms
  by (auto simp: handleMessage_answer handleMessage_ice handleAnswer_forward
                 handleICECandidate_forward)

lemma no_target_error:
  assumes "Type msg = ''answer'' \<or> Type msg = ''ice-candidate''" and "ToDeviceID msg = []"
  shows "handleMessage P c msg w = sendError c (''to_device_id is required for '' @ Type msg) w"
  using assms
  by (auto simp: handleMessage_answer handleMessage_ice handleAnswer_def handleICECandidate_def)

lemma set_LastSeen_fields:
  "Send (heap (set_LastSeen c now w) c) = Send (heap w c)"
  "Conn (heap (set_LastSeen c now w) c) = Conn (heap w c)"
  "broadcast (set_LastSeen c now w) = broadcast w"
  "log (set_LastSeen c now w) = log w"
  by (simp_all add: set_LastSeen_def)

lemma readPump_body_decoded:
  "readPump_body P c now (Inr msg) w =
     (case handleMessage P c msg (set_LastSeen c now w) of
        Inl p \<Rightarrow> Inl p | Inr w' \<Rightarrow> Inr (Continue w'))"
  by (simp add: readPump_body_def)

text \<open>
  Claim C9, as stated, fails in its last part. The session at pointer 2 has a full
  outbound queue; its answer has no \<open>to_device_id\<close>. A warning is logged and no
  error envelope is sent.
\<close>

theorem C9_counterexample:
  "Type answer_no_target = ''answer'' \<and> ToDeviceID answer_no_target = [] \<and>
   handleMessage test_pkg 2 answer_no_target world0 = Inr (world0\<lparr>log := [warn_not_sent]\<rparr>) \<and>
   Send (heap (world0\<lparr>log := [warn_not_sent]\<rparr>) 2) = Send (heap world0 2)"
  by (simp add: handleMessage_def handleAnswer_def answer_no_target_def
        sendError_def select_send_def world0_def sessA_full_def sessA_def warn_not_sent_def)

text \<open>
  Claim C9, amended. An answer or ICE candidate with a non-empty \<open>to_device_id\<close> is
  put on the broadcast channel as it is addressed: the result does not depend on the
  device repository, which the two handlers never query, so neither the existence of
  the destination nor its account is checked. With an empty \<open>to_device_id\<close> and the
  sender's outbound queue open, the error envelope is appended to that queue when it
  has room, and only a warning is logged when it is full. In all these cases the read
  loop goes on and the connection is untouched.
\<close>

theorem C9_amended:
  assumes "Type msg = ''answer'' \<or> Type msg = ''ice-candidate''"
  shows
   "(ToDeviceID msg \<noteq> [] \<longrightarrow>
       handleMessage P c msg w =
         Inr (w\<lparr>broadcast := broadcast w @
                [\<lparr>Type = Type msg, FromDeviceID = String P (DeviceID (heap w c)),
                  ToDeviceID = ToDeviceID msg,
                  SDP = (if Type msg = ''answer'' then SDP msg else None),
                  Candidate = (if Type msg = ''answer'' then None else Candidate msg),
                  Error = [], Data = []\<rparr>]\<rparr>)) \<and>
    (ToDeviceID msg = [] \<and> \<not> ch_closed (Send (heap w c)) \<longrightarrow>
       handleMessage P c msg w =
         Inr (if length (ch_buf (Send (heap w c))) < ch_cap (Send (heap w c))
              then w\<lparr>heap := (heap w)(c := (heap w c)
                       \<lparr>Send := (Send (heap w c))
                          \<lparr>ch_buf := ch_buf (Send (heap w c)) @
                             [error_envelope (''to_device_id is required for '' @ Type msg)]\<rparr>\<rparr>)\<rparr>
              else w\<lparr>log := log w @
                       [LogEvent WarnLevel [] ''Failed to send error message'']\<rparr>)) \<and>
    (ToDeviceID msg \<noteq> [] \<or> \<not> ch_closed (Send (heap w c)) \<longrightarrow>
       (\<exists>w'. readPump_body P c now (Inr msg) w = Inr (Continue w') \<and>
             Conn (heap w' c) = Conn (heap w c)))"
proof (intro conjI impI)
  assume "ToDeviceID msg \<noteq> []"
  then show "handleMessage P c msg w =
         Inr (w\<lparr>broadcast := broadcast w @
                [\<lparr>Type = Type msg, FromDeviceID = String P (DeviceID (heap w c)),
                  ToDeviceID = ToDeviceID msg,
                  SDP = (if Type msg = ''answer'' then SDP msg else None),
                  Candidate = (if Type msg = ''answer'' then None else Candidate msg),
                  Error = [], Data = []\<rparr>]\<rparr>)"
    by (rule forward_any_target [OF assms])
next
  assume "ToDeviceID msg = [] \<and> \<not> ch_closed (Send (heap w c))"
  then show "handleMessage P c msg w =
         Inr (if length (ch_buf (Send (heap w c))) < ch_cap (Send (heap w c))
              then w\<lparr>heap := (heap w)(c := (heap w c)
                       \<lparr>Send := (Send (heap w c))
                          \<lparr>ch_buf := ch_buf (Send (heap w c)) @
                             [error_envelope (''to_device_id is required for '' @ Type msg)]\<rparr>\<rparr>)\<rparr>
              else w\<lparr>log := log w @
                       [LogEvent WarnLevel [] ''Failed to send error message'']\<rparr>)"
    using no_target_error [OF assms] sendError_open by metis
next
  let ?w1 = "set_LastSeen c now w"
  assume h: "ToDeviceID msg \<noteq> [] \<or> \<not> ch_closed (Send (heap w c))"
  show "\<exists>w'. readPump_body P c now (Inr msg) w = Inr (Continue w') \<and>
             Conn (heap w' c) = Conn (heap w c)"
  proof (cases "ToDeviceID msg = []")
    case False
    from forward_any_target [OF assms False, of P c ?w1]
    show ?thesis by (simp add: readPump_body_decoded set_LastSeen_def)
  next
    case True
    with h have "\<not> ch_closed (Send (heap ?w1 c))" by (simp add: set_LastSeen_fields)
    from sendError_returns [OF this]
    obtain w' where w': "sendError c (''to_device_id is required for '' @ Type msg) ?w1 = Inr w'"
      by blast
    from sendError_Conn [OF w'] have "Conn (heap w' c) = Conn (heap w c)"
      by (simp add: set_LastSeen_fields)
    with w' no_target_error [OF assms True, of P c ?w1]
    show ?thesis by (simp add: readPump_body_decoded)
  qed
qed

text \<open>
  Device A (user 100) answers to device B (user 200): forwarded. Its answer without a
  destination: an error envelope in its own queue, and the loop continues.
\<close>

theorem C9_amended_witness:
  "handleMessage test_pkg 1 answer_spoofed world0
     = Inr (world0\<lparr>broadcast := [answer_spoofed\<lparr>FromDeviceID := idA\<rparr>]\<rparr>) \<and>
   handleMessage test_pkg 1 answer_no_target world0
     = Inr (world0\<lparr>heap := (heap world0)(1 := sessA
              \<lparr>Send := (make_chan 256)
                 \<lparr>ch_buf := [error_envelope ''to_device_id is required for answer'']\<rparr>\<rparr>)\<rparr>) \<and>
   (\<exists>w'. readPump_body test_pkg 1 7 (Inr answer_no_target) world0 = Inr (Continue w') \<and>
         Conn (heap w' 1) = Conn (heap world0 1))"
proof -
  have t: "Type answer_spoofed = ''answer'' \<or> Type answer_spoofed = ''ice-candidate''"
          "Type answer_no_target = ''answer'' \<or> Type answer_no_target = ''ice-candidate''"
    by (simp_all add: answer_spoofed_def answer_no_target_def)
  have n: "ToDeviceID answer_spoofed \<noteq> []" "ToDeviceID answer_no_target = []"
    by (simp_all add: answer_spoofed_def answer_no_target_def idB_def)
  have e: "\<not> ch_closed (Send (heap world0 1))"
          "length (ch_buf (Send (heap world0 1))) < ch_cap (Send (heap world0 1))"
          "heap world0 1 = sessA" "Send sessA = make_chan 256"
          "ch_buf (make_chan 256 :: SignalingMessage chan) = []"
          "DeviceID sessA = 10" "String test_pkg 10 = idA" "broadcast world0 = []"
    by (simp_all add: world0_def sessA_def make_chan_def test_pkg_def)
  have f: "Type answer_spoofed = ''answer''" "Type answer_no_target = ''answer''"
          "SDP answer_spoofed = None" "ToDeviceID answer_spoofed = idB"
    by (simp_all add: answer_spoofed_def answer_no_target_def)
  from C9_amended [OF t(1), of test_pkg 1 world0 7] C9_amended [OF t(2), of test_pkg 1 world0 7]
       n e f
  show ?thesis by (simp add: answer_spoofed_def)
qed

subsection \<open>The read loop on errors and on unknown types\<close>

lemma readPump_body_error:
  "readPump_body P c now (Inl err) w =
     Inr (Break (if IsUnexpectedCloseError P err [CloseGoingAway, CloseAbnormalClosure]
                 then w\<lparr>log := log w @ [LogEvent ErrorLevel [Err err] ''WebSocket error'']\<rparr>
                 else w))"
  by (simp add: readPump_body_def)

lemma readPump_deferred_fields:
  "unregister (readPump_deferred c w) = unregister w @ [c]"
  "conn_closed (Conn (heap (readPump_deferred c w) c))"
  "broadcast (readPump_deferred c w) = broadcast w"
  "clients (readPump_deferred c w) = clients w"
  "log (readPump_deferred c w) = log w"
  by (simp_all add: readPump_deferred_def Close_def)

lemma readPump_error_exits:
  "readPump P c ((now, Inl err) # rest) w =
     Inr (Exited (readPump_deferred c
            (if IsUnexpectedCloseError P err [CloseGoingAway, CloseAbnormalClosure]
             then w\<lparr>log := log w @ [LogEvent ErrorLevel [Err err] ''WebSocket error'']\<rparr>
             else w)))"
  by (simp add: readPump_body_error)

lemma handleMessage_unknown:
  "Type msg \<noteq> ''offer'' \<Longrightarrow> Type msg \<noteq> ''answer'' \<Longrightarrow> Type msg \<noteq> ''ice-candidate'' \<Longrightarrow>
   handleMessage P c msg w =
     Inr (w\<lparr>log := log w @ [LogEvent WarnLevel [Str ''type'' (Type msg)] ''Unknown message type'']\<rparr>)"
  by (simp add: handleMessage_def)

text \<open>
  Claim C4, as stated, fails in its first part. \<open>ReadJSON\<close> returns an error for a
  frame it cannot decode, and the loop leaves on every error: nothing is logged (the
  error is not a close error), the answer that arrives next is never read, the session
  asks to be unregistered and its connection is closed.
\<close>

theorem C4_counterexample:
  "\<not> IsUnexpectedCloseError test_pkg bad_json [CloseGoingAway, CloseAbnormalClosure] \<and>
   readPump_body test_pkg 1 7 (Inl bad_json) world0 = Inr (Break world0) \<and>
   readPump test_pkg 1 [(7, Inl bad_json), (8, Inr answer_spoofed)] world0
     = Inr (Exited (readPump_deferred 1 world0)) \<and>
   log (readPump_deferred 1 world0) = [] \<and>
   unregister (readPump_deferred 1 world0) = [1] \<and>
   conn_closed (Conn (heap (readPump_deferred 1 world0) 1))"
proof -
  have u: "\<not> IsUnexpectedCloseError test_pkg bad_json [CloseGoingAway, CloseAbnormalClosure]"
    by (simp add: test_pkg_def bad_json_def)
  have l: "log world0 = []" "unregister world0 = []" by (simp_all add: world0_def)
  from u l show ?thesis
    by (simp add: readPump_body_error readPump_deferred_fields)
qed

text \<open>
  Claim C4, amended. Every error of \<open>ReadJSON\<close>, the error for an undecodable frame
  included, ends the read loop: the loop logs it only when
  \<open>IsUnexpectedCloseError\<close> says so, then the session is sent to the unregister
  channel and its connection closed; nothing is forwarded. A decoded frame whose type
  is none of offer, answer, ice-candidate is logged as a warning and dropped: nothing
  is forwarded, no error is sent to the sender, and the loop continues with the
  connection as it was.
\<close>

theorem C4_amended:
  "readPump_body P c now (Inl err) w =
     Inr (Break (if IsUnexpectedCloseError P err [CloseGoingAway, CloseAbnormalClosure]
                 then w\<lparr>log := log w @ [LogEvent ErrorLevel [Err err] ''WebSocket error'']\<rparr>
                 else w)) \<and>
   (\<exists>w'. readPump P c ((now, Inl err) # rest) w = Inr (Exited w') \<and>
         unregister w' = unregister w @ [c] \<and> conn_closed (Conn (heap w' c)) \<and>
         broadcast w' = broadcast w) \<and>
   (Type msg \<noteq> ''offer'' \<and> Type msg \<noteq> ''answer'' \<and> Type msg \<noteq> ''ice-candidate'' \<longrightarrow>
      readPump_body P c now (Inr msg) w =
        Inr (Continue ((set_LastSeen c now w)
               \<lparr>log := log w @ [LogEvent WarnLevel [Str ''type'' (Type msg)]
                                  ''Unknown message type'']\<rparr>)))"
proof (intro conjI impI)
  show "readPump_body P c now (Inl err) w =
     Inr (Break (if IsUnexpectedCloseError P err [CloseGoingAway, CloseAbnormalClosure]
                 then w\<lparr>log := log w @ [LogEvent ErrorLevel [Err err] ''WebSocket error'']\<rparr>
                 else w))"
    by (rule readPump_body_error)
next
  show "\<exists>w'. readPump P c ((now, Inl err) # rest) w = Inr (Exited w') \<and>
         unregister w' = unregister w @ [c] \<and> conn_closed (Conn (heap w' c)) \<and>
         broadcast w' = broadcast w"
    unfolding readPump_error_exits by (simp add: readPump_deferred_fields)
next
  assume "Type msg \<noteq> ''offer'' \<and> Type msg \<noteq> ''answer'' \<and> Type msg \<noteq> ''ice-candidate''"
  then show "readPump_body P c now (Inr msg) w =
        Inr (Continue ((set_LastSeen c now w)
               \<lparr>log := log w @ [LogEvent WarnLevel [Str ''type'' (Type msg)]
                                  ''Unknown message type'']\<rparr>))"
    by (simp add: readPump_body_decoded handleMessage_unknown set_LastSeen_fields)
qed

theorem C4_amended_witness:
  "readPump_body test_pkg 1 7 (Inr ping_frame) world0 =
     Inr (Continue ((set_LastSeen 1 7 world0)
            \<lparr>log := [LogEvent WarnLevel [Str ''type'' ''ping''] ''Unknown message type'']\<rparr>))"
proof -
  have t: "Type ping_frame \<noteq> ''offer'' \<and> Type ping_frame \<noteq> ''answer'' \<and>
           Type ping_frame \<noteq> ''ice-candidate''" "Type ping_frame = ''ping''"
    by (simp_all add: ping_frame_def)
  have l: "log world0 = []" by (simp add: world0_def)
  from C4_amended [where P = test_pkg and c = 1 and now = 7 and w = world0 and msg = ping_frame]
       t l
  show ?thesis by simp
qed

subsection \<open>A destination that is not a UUID\<close>

lemma run_broadcast_unparsed:
  "Parse P (ToDeviceID m) = None \<Longrightarrow> run_broadcast P m w = Inr w"
  by (simp add: run_broadcast_def)

text \<open>
  Claim C10. An answer or ICE candidate whose \<open>to_device_id\<close> is not empty and not a
  well-formed UUID is put on the broadcast channel with that destination, and the
  broadcast case of \<open>Hub.run\<close> leaves every state as it finds it when it receives the
  envelope: no warning in the log, no change of the registry, nothing in any
  session's queue.
\<close>

theorem C10_malformed_target:
  assumes "Type msg = ''answer'' \<or> Type msg = ''ice-candidate''"
    and "ToDeviceID msg \<noteq> []"
    and "Parse P (ToDeviceID msg) = None"
  shows "\<exists>m. handleMessage P c msg w = Inr (w\<lparr>broadcast := broadcast w @ [m]\<rparr>) \<and>
             ToDeviceID m = ToDeviceID msg \<and>
             (\<forall>h. run_case P (FromBroadcast m) h = Inr h)"
  using forward_any_target [OF assms(1,2), of P c w] assms(3)
  by (auto simp: run_broadcast_unparsed)

theorem C10_malformed_target_witness:
  "\<exists>m. handleMessage test_pkg 1 ice_to_unknown world0
          = Inr (world0\<lparr>broadcast := broadcast world0 @ [m]\<rparr>) \<and>
       ToDeviceID m = ''not-a-uuid'' \<and>
       (\<forall>h. run_case test_pkg (FromBroadcast m) h = Inr h)"
proof -
  have a: "Type ice_to_unknown = ''answer'' \<or> Type ice_to_unknown = ''ice-candidate''"
    by (simp add: ice_to_unknown_def)
  have b: "ToDeviceID ice_to_unknown \<noteq> []" "ToDeviceID ice_to_unknown = ''not-a-uuid''"
    by (simp_all add: ice_to_unknown_def)
  have p: "Parse test_pkg (ToDeviceID ice_to_unknown) = None"
    by (simp add: ice_to_unknown_def test_pkg_def idA_def idB_def)
  from C10_malformed_target [OF a b(1) p, of 1 world0] b(2) show ?thesis by simp
qed

section \<open>Properties of the hub\<close>

subsection \<open>Registration\<close>

lemma run_register_fields:
  "clients (run_register P c w) = (clients w)(DeviceID (heap w c) \<mapsto> c)"
  "heap (run_register P c w) = heap w"
  "broadcast (run_register P c w) = broadcast w"
  by (simp_all add: run_register_def)

lemma run_registers:
  "\<forall>c\<in>set cs. DeviceID (heap w c) = d \<Longrightarrow>
   \<exists>w'. run P (map FromRegister cs) w = Inr w' \<and> heap w' = heap w \<and>
        clients w' = (if cs = [] then clients w else (clients w)(d \<mapsto> last cs))"
proof (induction cs arbitrary: w)
  case Nil
  then show ?case by simp
next
  case (Cons c cs)
  let ?w1 = "run_register P c w"
  from Cons.prems have "\<forall>x\<in>set cs. DeviceID (heap ?w1 x) = d"
    by (simp add: run_register_fields)
  from Cons.IH [OF this] obtain w' where
    w': "run P (map FromRegister cs) ?w1 = Inr w'" "heap w' = heap ?w1"
        "clients w' = (if cs = [] then clients ?w1 else (clients ?w1)(d \<mapsto> last cs))"
    by blast
  from Cons.prems have d: "DeviceID (heap w c) = d" by simp
  from w' d show ?case by (auto simp: run_register_fields fun_eq_iff)
qed

text \<open>
  Claim C2, as stated, fails. Device A is registered with the session at pointer 1 and
  connects again with the session at pointer 4. After the register case the registry
  holds pointer 4, and the earlier session is as it was: its outbound queue is not
  closed and its connection is not closed.
\<close>

theorem C2_counterexample:
  "clients world_connected 10 = Some 1 \<and> DeviceID (heap world_connected 4) = 10 \<and>
   clients (run_register test_pkg 4 world_connected) 10 = Some 4 \<and>
   \<not> ch_closed (Send (heap (run_register test_pkg 4 world_connected) 1)) \<and>
   \<not> conn_closed (Conn (heap (run_register test_pkg 4 world_connected) 1))"
  by (simp add: world_connected_def run_register_fields world0_def sessA_def sessA_again_def
                make_chan_def new_conn_def)

text \<open>
  Claim C2, amended. The register case stores the new session under its
  \<open>DeviceID\<close>, in place of whatever was there, changes no other key and touches no
  session: the earlier session's outbound queue and connection stay as they were.
  Hence after any non-empty sequence of registrations for one \<open>DeviceID\<close> the
  registry holds exactly the last session under that key, and no session has been
  changed.
\<close>

theorem C2_amended:
  "clients (run_register P c w) = (clients w)(DeviceID (heap w c) \<mapsto> c) \<and>
   heap (run_register P c w) = heap w \<and>
   (cs \<noteq> [] \<and> (\<forall>x\<in>set cs. DeviceID (heap w x) = d) \<longrightarrow>
      (\<exists>w'. run P (map FromRegister cs) w = Inr w' \<and>
            clients w' = (clients w)(d \<mapsto> last cs) \<and> heap w' = heap w))"
  using run_registers [of cs w d P] by (auto simp: run_register_fields)

theorem C2_amended_witness:
  "\<exists>w'. run test_pkg (map FromRegister [1, 2, 4]) world0 = Inr w' \<and>
        clients w' = (clients world0)(10 \<mapsto> 4) \<and> heap w' = heap world0"
proof -
  have "\<forall>x\<in>set [1, 2, 4]. DeviceID (heap world0 x) = 10"
    by (simp add: world0_def sessA_def sessA_full_def sessA_again_def)
  with C2_amended [where cs = "[1, 2, 4]" and w = world0 and d = 10 and P = test_pkg]
  show ?thesis by simp
qed

subsection \<open>Deregistration\<close>

text \<open>
  Claim C3 against the code. The unregister case tests whether the key
  \<open>client.DeviceID\<close> is present, not whether the entry is this client. After a
  reconnect the registry holds pointer 4 for device A; unregistering the earlier
  session (pointer 1) deletes that entry, and the live session 4 is no longer
  registered. Unregistering twice in a row is harmless; but when the session at
  pointer 2 was evicted for a full queue (its queue closed) and device A has
  registered again, unregistering pointer 2 closes its queue a second time: the hub
  panics.
\<close>

theorem C3_failing_input:
  "clients world_reconnected 10 = Some 4 \<and>
   (\<exists>w'. run_unregister test_pkg 1 world_reconnected = Inr w' \<and>
         clients w' 10 = None \<and> \<not> ch_closed (Send (heap w' 4))) \<and>
   run test_pkg [FromRegister 2, FromBroadcast answer_to_A, FromUnregister 2, FromUnregister 2]
       world0 \<noteq> Inl CloseOfClosedChannel \<and>
   run test_pkg [FromRegister 2, FromBroadcast answer_to_A, FromRegister 4, FromUnregister 2]
       world0 = Inl CloseOfClosedChannel"
  by (simp add: world_reconnected_def world_connected_def run_register_def run_unregister_def
        run_broadcast_def close_chan_def select_send_def answer_to_A_def
        world0_def sessA_def sessA_full_def sessA_again_def
        make_chan_def test_pkg_def idA_def idB_def)

subsection \<open>Dispatch\<close>

lemma run_broadcast_absent:
  "Parse P (ToDeviceID m) = Some t \<Longrightarrow> clients w t = None \<Longrightarrow>
   run_broadcast P m w =
     Inr (w\<lparr>log := log w @ [LogEvent WarnLevel [Str ''device_id'' (ToDeviceID m)]
                              ''Target device not connected'']\<rparr>)"
  by (simp add: run_broadcast_def)

lemma run_broadcast_full:
  "Parse P (ToDeviceID m) = Some t \<Longrightarrow> clients w t = Some p \<Longrightarrow>
   \<not> ch_closed (Send (heap w p)) \<Longrightarrow>
   ch_cap (Send (heap w p)) \<le> length (ch_buf (Send (heap w p))) \<Longrightarrow>
   run_broadcast P m w =
     Inr (w\<lparr>heap := (heap w)(p := (heap w p)\<lparr>Send := (Send (heap w p))\<lparr>ch_closed := True\<rparr>\<rparr>),
            clients := (clients w)(t := None)\<rparr>)"
  by (simp add: run_broadcast_def select_send_def close_chan_def)

text \<open>
  Claim C7, as stated, fails. Nobody is registered; the envelope's \<open>to_device_id\<close>
  is not a UUID. The broadcast case returns the state unchanged: no warning is logged.
\<close>

theorem C7_counterexample:
  "clients world0 = Map.empty \<and> log world0 = [] \<and>
   run_broadcast test_pkg (ice_to_unknown\<lparr>FromDeviceID := idA\<rparr>) world0 = Inr world0"
  by (simp add: run_broadcast_def ice_to_unknown_def test_pkg_def idA_def idB_def world0_def)

text \<open>
  Claim C7, amended. When \<open>to_device_id\<close> is a well-formed UUID under which no
  session is registered, the broadcast case logs the warning
  ``Target device not connected'' and changes nothing else: the registry is as it was
  and no session's queue, the sender's included, receives anything.
\<close>

theorem C7_amended:
  assumes "Parse P (ToDeviceID m) = Some t" and "clients w t = None"
  shows "run_broadcast P m w =
     Inr (w\<lparr>log := log w @ [LogEvent WarnLevel [Str ''device_id'' (ToDeviceID m)]
                              ''Target device not connected'']\<rparr>)"
  using assms by (rule run_broadcast_absent)

theorem C7_amended_witness:
  "run_broadcast test_pkg (answer_spoofed\<lparr>FromDeviceID := idA\<rparr>) world0 =
     Inr (world0\<lparr>log := [LogEvent WarnLevel [Str ''device_id'' idB]
                           ''Target device not connected'']\<rparr>)"
proof -
  have p: "Parse test_pkg (ToDeviceID (answer_spoofed\<lparr>FromDeviceID := idA\<rparr>)) = Some 11"
    by (simp add: answer_spoofed_def test_pkg_def idA_def idB_def)
  have c: "clients world0 11 = None" "log world0 = []"
          "ToDeviceID (answer_spoofed\<lparr>FromDeviceID := idA\<rparr>) = idB"
    by (simp_all add: world0_def answer_spoofed_def)
  from C7_amended [OF p c(1)] c show ?thesis by simp
qed

text \<open>
  Claim C8. When the target session is registered and its (open) outbound queue is
  full, the broadcast case returns at once: the target's queue is closed with its
  content as it was, so the envelope is not in it, the target's key is deleted from
  the registry, and nothing else changes: no log entry, nothing to any other session.
\<close>

theorem C8_full_queue:
  assumes "Parse P (ToDeviceID m) = Some t" and "clients w t = Some p"
    and "\<not> ch_closed (Send (heap w p))"
    and "ch_cap (Send (heap w p)) \<le> length (ch_buf (Send (heap w p)))"
  shows "run_broadcast P m w =
     Inr (w\<lparr>heap := (heap w)(p := (heap w p)\<lparr>Send := (Send (heap w p))\<lparr>ch_closed := True\<rparr>\<rparr>),
            clients := (clients w)(t := None)\<rparr>)"
  using assms by (rule run_broadcast_full)

theorem C8_full_queue_witness:
  "run_broadcast test_pkg answer_to_A world_full =
     Inr (world_full\<lparr>heap := (heap world_full)
            (2 := sessA_full\<lparr>Send := (Send sessA_full)\<lparr>ch_closed := True\<rparr>\<rparr>),
          clients := (clients world_full)(10 := None)\<rparr>)"
proof -
  have p: "Parse test_pkg (ToDeviceID answer_to_A) = Some 10"
    by (simp add: answer_to_A_def test_pkg_def idA_def)
  have h: "heap world_full 2 = sessA_full"
    by (simp add: world_full_def run_register_fields world0_def)
  have c: "clients world_full 10 = Some 2"
    by (simp add: world_full_def run_register_fields world0_def sessA_full_def sessA_def)
  have o: "\<not> ch_closed (Send (heap world_full 2))"
    by (simp add: h sessA_full_def)
  have f: "ch_cap (Send (heap world_full 2)) \<le> length (ch_buf (Send (heap world_full 2)))"
    by (simp add: h sessA_full_def)
  from C8_full_queue [OF p c o f] h show ?thesis by simp
qed

subsection \<open>Registered sessions have open queues\<close>

text \<open>
  The three cases of \<open>Hub.run\<close> keep \<open>registry_ok\<close>, given that a session's queue
  is open when it registers (\<open>handleWebSocket\<close> has just made it).
\<close>

lemma registry_ok_register:
  "registry_ok w \<Longrightarrow> \<not> ch_closed (Send (heap w c)) \<Longrightarrow> registry_ok (run_register P c w)"
  by (auto simp: registry_ok_def run_register_def)

lemma registry_ok_unregister:
  "registry_ok w \<Longrightarrow> run_unregister P c w = Inr w' \<Longrightarrow> registry_ok w'"
  by (auto simp: registry_ok_def run_unregister_def close_chan_def Let_def
           split: option.splits if_splits)

lemma registry_ok_key:
  "registry_ok w \<Longrightarrow> clients w k = Some p \<Longrightarrow> clients w k' = Some p \<Longrightarrow> k = k'"
  unfolding registry_ok_def by metis

lemma registry_ok_broadcast:
  assumes ok: "registry_ok w" and run: "run_broadcast P m w = Inr w'"
  shows "registry_ok w'"
proof (cases "Parse P (ToDeviceID m)")
  case None
  with run ok show ?thesis by (simp add: run_broadcast_def)
next
  case (Some t)
  show ?thesis
  proof (cases "clients w t")
    case None
    with Some run ok show ?thesis by (auto simp: run_broadcast_def registry_ok_def)
  next
    case (Some p)
    note key = registry_ok_key [OF ok Some]
    from ok Some have op: "\<not> ch_closed (Send (heap w p))" by (simp add: registry_ok_def)
    show ?thesis
    proof (cases "length (ch_buf (Send (heap w p))) < ch_cap (Send (heap w p))")
      case True
      with \<open>Parse P (ToDeviceID m) = Some t\<close> Some op run
      have "w' = w\<lparr>heap := (heap w)(p := (heap w p)
                    \<lparr>Send := (Send (heap w p))\<lparr>ch_buf := ch_buf (Send (heap w p)) @ [m]\<rparr>\<rparr>)\<rparr>"
        by (simp add: run_broadcast_def select_send_def)
      with ok show ?thesis by (auto simp: registry_ok_def)
    next
      case False
      with \<open>Parse P (ToDeviceID m) = Some t\<close> Some op run
      have "w' = w\<lparr>heap := (heap w)(p := (heap w p)
                    \<lparr>Send := (Send (heap w p))\<lparr>ch_closed := True\<rparr>\<rparr>),
                  clients := (clients w)(t := None)\<rparr>"
        by (simp add: run_broadcast_def select_send_def close_chan_def)
      with ok key show ?thesis by (auto simp: registry_ok_def)
    qed
  qed
qed

lemma registry_ok_world0: "registry_ok world0"
  by (simp add: registry_ok_def world0_def)

section \<open>Properties of admission\<close>

lemma Type_error_envelope: "Type (error_envelope e) = ''error''"
  by (simp add: error_envelope_def)

lemma refuse_new_conn:
  "refuse new_conn e = \<lparr>written = [error_envelope e], conn_closed = True\<rparr>"
  by (simp add: refuse_def new_conn_def WriteJSON_def Close_def)

lemma handleWebSocket_upgrade_failed:
  "Upgrade r = Some err \<Longrightarrow>
   handleWebSocket P r newID now_db now w =
     (None, w\<lparr>log := log w @ [LogEvent ErrorLevel [Err (OtherError err)]
                                ''Failed to upgrade connection'']\<rparr>)"
  by (simp add: handleWebSocket_def)

lemma handleWebSocket_refuses:
  assumes "Upgrade r = None"
    and "Get (query r) ''device_id'' = [] \<or> Get (query r) ''device_token'' = [] \<or>
         Parse P (Get (query r) ''device_id'') = None \<or>
         snd (GetByToken (deviceRepo w) (Get (query r) ''device_token'')) \<noteq> None \<or>
         fst (GetByToken (deviceRepo w) (Get (query r) ''device_token'')) = None \<or>
         map_option dev_ID (fst (GetByToken (deviceRepo w) (Get (query r) ''device_token'')))
           \<noteq> Parse P (Get (query r) ''device_id'')"
  shows "\<exists>e. handleWebSocket P r newID now_db now w = (Some (refuse new_conn e), w)"
  using assms
  by (auto simp: handleWebSocket_def Let_def split: option.splits prod.splits)

text \<open>
  Claim C6, as stated, fails. A request without \<open>device_id\<close> that is not a WebSocket
  handshake: \<open>Upgrade\<close> returns an error, the handler logs it and returns. There is
  no connection, and no error envelope is sent.
\<close>

theorem C6_counterexample:
  "Get (query plain_request) ''device_id'' = [] \<and> log world0 = [] \<and>
   handleWebSocket test_pkg plain_request 99 1 2 world0 =
     (None, world0\<lparr>log := [LogEvent ErrorLevel
        [Err (OtherError ''websocket: the client is not using the websocket protocol'')]
        ''Failed to upgrade connection'']\<rparr>)"
  by (simp add: handleWebSocket_def plain_request_def Get_def world0_def)

text \<open>
  Claim C6, amended. When the upgrade fails the handler logs the failure and does
  nothing else. When the upgrade succeeds and \<open>device_id\<close> or \<open>device_token\<close> is
  absent, or \<open>device_id\<close> is not a well-formed UUID, or \<open>GetByToken\<close> returns an
  error or no device, or the device's identifier differs from the claimed one, the
  handler writes exactly one envelope of type \<open>error\<close> to the connection and closes
  it, and the state is unchanged: no \<open>Client\<close> is allocated, nothing is sent to the
  register channel, no goroutine is started.
\<close>

theorem C6_amended:
  "(Upgrade r = Some err \<longrightarrow>
      handleWebSocket P r newID now_db now w =
        (None, w\<lparr>log := log w @ [LogEvent ErrorLevel [Err (OtherError err)]
                                   ''Failed to upgrade connection'']\<rparr>)) \<and>
   (Upgrade r = None \<and>
    (Get (query r) ''device_id'' = [] \<or> Get (query r) ''device_token'' = [] \<or>
     Parse P (Get (query r) ''device_id'') = None \<or>
     snd (GetByToken (deviceRepo w) (Get (query r) ''device_token'')) \<noteq> None \<or>
     fst (GetByToken (deviceRepo w) (Get (query r) ''device_token'')) = None \<or>
     map_option dev_ID (fst (GetByToken (deviceRepo w) (Get (query r) ''device_token'')))
       \<noteq> Parse P (Get (query r) ''device_id'')) \<longrightarrow>
      (\<exists>e. handleWebSocket P r newID now_db now w =
              (Some \<lparr>written = [error_envelope e], conn_closed = True\<rparr>, w) \<and>
            Type (error_envelope e) = ''error''))"
  using handleWebSocket_upgrade_failed [of r err P newID now_db now w]
        handleWebSocket_refuses [of r P w newID now_db now]
  by (auto simp: refuse_new_conn Type_error_envelope)

lemma GetByToken_world0_B: "GetByToken (deviceRepo world0) ''token-b'' = (Some devB, None)"
  by (simp add: GetByToken_def QueryRow_def scan_result_def world0_def devA_def devB_def)

theorem C6_amended_witness:
  "\<exists>e. handleWebSocket test_pkg wrong_token_request 99 1 2 world0 =
          (Some \<lparr>written = [error_envelope e], conn_closed = True\<rparr>, world0) \<and>
       Type (error_envelope e) = ''error''"
proof -
  have u: "Upgrade wrong_token_request = None"
    by (simp add: wrong_token_request_def)
  have g: "Get (query wrong_token_request) ''device_id'' = idA"
          "Get (query wrong_token_request) ''device_token'' = ''token-b''"
    by (simp_all add: wrong_token_request_def Get_def)
  have p: "Parse test_pkg idA = Some 10" by (simp add: test_pkg_def)
  have m: "map_option dev_ID (fst (GetByToken (deviceRepo world0) ''token-b'')) \<noteq> Some 10"
    by (simp add: GetByToken_world0_B devB_def)
  from C6_amended [where r = wrong_token_request and P = test_pkg and w = world0
                     and newID = 99 and now_db = 1 and now = 2] u g p m
  show ?thesis by simp
qed

end
